theory Spec2Isabelle
  imports Main "HOL-Library.Char_ord" "HOL-Library.List_Lexorder" "HOL-Library.Product_Lexorder"
    "HOL-Library.Multiset"
begin

section \<open>Product documents and the products collection\<close>

text \<open>
  The \<^verbatim>\<open>Product\<close> interface (model/Product.ts).  Only the fields that the like
  subsystem reads or writes are typed; the remaining ones (name, description, categoryId,
  charityId, userId, quality, size, product_images, donation, price, number) are kept as an
  uninterpreted association list \<open>attrs\<close>.  A JavaScript \<^verbatim>\<open>number\<close> that
  counts likes is an \<open>int\<close>; an optional or possibly missing field is an \<open>option\<close>
  (\<open>likes\<close> is declared mandatory, but every reader in the repository tolerates its
  absence on records that predate the feature); a timestamp is a \<open>nat\<close>.
\<close>

record Product =
  pid :: "string option"
  likes :: "int option"
  likedBy :: "string list option"
  createdAt :: "nat option"
  updatedAt :: "nat option"
  attrs :: "(string \<times> string) list"

text \<open>
  The Firestore collection \<^verbatim>\<open>products\<close>: document id and document data.  Reading a
  document is \<open>map_of\<close>; \<^verbatim>\<open>docRef.update\<close> rewrites the fields of the document
  stored under the id and leaves every other document alone.
\<close>

type_synonym collection = "(string \<times> Product) list"

definition doc_update :: "collection \<Rightarrow> string \<Rightarrow> (Product \<Rightarrow> Product) \<Rightarrow> collection" where
  "doc_update db i f = map (\<lambda>(k, d). if k = i then (k, f d) else (k, d)) db"

text \<open>
  The field transforms of \<^verbatim>\<open>FieldValue\<close>, as the Firestore documentation gives them:
  \<^verbatim>\<open>arrayUnion\<close> appends an element that is not yet there, \<^verbatim>\<open>arrayRemove\<close> removes
  every instance, both overwrite a field that is not an array; \<^verbatim>\<open>increment\<close> adds to a
  number and sets a missing field to the operand.
\<close>

definition arrayUnion :: "string \<Rightarrow> string list option \<Rightarrow> string list option" where
  "arrayUnion u cur =
     (case cur of
        Some xs \<Rightarrow> Some (if u \<in> set xs then xs else xs @ [u])
      | None \<Rightarrow> Some [u])"

definition arrayRemove :: "string \<Rightarrow> string list option \<Rightarrow> string list option" where
  "arrayRemove u cur =
     (case cur of
        Some xs \<Rightarrow> Some (removeAll u xs)
      | None \<Rightarrow> Some [])"

definition increment :: "int \<Rightarrow> int option \<Rightarrow> int option" where
  "increment n cur = (case cur of Some k \<Rightarrow> Some (k + n) | None \<Rightarrow> Some n)"

text \<open>
  Two reads that recur in the source: \<^verbatim>\<open>data.likedBy || []\<close> and
  \<^verbatim>\<open>typeof data.likes === 'number' ? data.likes : 0\<close> (on an integer counter the
  latter coincides with \<^verbatim>\<open>product.likes ?? 0\<close> and \<^verbatim>\<open>product.likes || 0\<close>).
\<close>

definition likedBy_or_empty :: "Product \<Rightarrow> string list" where
  "likedBy_or_empty data = (case likedBy data of Some xs \<Rightarrow> xs | None \<Rightarrow> [])"

definition currentLikes :: "Product \<Rightarrow> int" where
  "currentLikes data = (case likes data of Some n \<Rightarrow> n | None \<Rightarrow> 0)"

section \<open>ProductRepository\<close>

text \<open>
  The repository exists in two revisions.  The transactional one wraps \<^verbatim>\<open>addLike\<close> and
  \<^verbatim>\<open>removeLike\<close> in \<^verbatim>\<open>runTransaction\<close> and paginates
  \<^verbatim>\<open>getProductsLikedByUser\<close>; its functions keep their names here.  The one in
  repositories/ProductRepository.ts updates the document directly; its two functions carry the
  suffix \<open>_noTransaction\<close>.  \<^verbatim>\<open>getById\<close> and \<^verbatim>\<open>adjustLikes\<close> are the same in
  both.

  \<^verbatim>\<open>getById\<close>: null for a missing document, otherwise
  \<^verbatim>\<open>{ id: doc.id, ...data, createdAt, updatedAt }\<close>; an \<^verbatim>\<open>id\<close> stored in the data
  itself wins over the document id, as the spread comes second, and the conversion of a
  \<^verbatim>\<open>Timestamp\<close> to a \<^verbatim>\<open>Date\<close> keeps the point in time.
\<close>

definition getById :: "collection \<Rightarrow> string \<Rightarrow> Product option" where
  "getById db i =
     (case map_of db i of
        None \<Rightarrow> None
      | Some data \<Rightarrow>
          Some (data\<lparr>pid := (case pid data of Some x \<Rightarrow> Some x | None \<Rightarrow> Some i)\<rparr>))"

datatype error = ProductNotFound

text \<open>
  \<^verbatim>\<open>addLike\<close> of the transactional repository.  The body of
  \<^verbatim>\<open>runTransaction\<close> reads the document, throws \<^verbatim>\<open>Product not found\<close> when it is
  missing, and writes only when the user is not yet in \<^verbatim>\<open>likedBy\<close>.  The argument
  \<open>now\<close> is the server time that \<^verbatim>\<open>FieldValue.serverTimestamp()\<close> resolves to.
\<close>

definition addLike_transaction :: "nat \<Rightarrow> collection \<Rightarrow> string \<Rightarrow> string \<Rightarrow> error + collection" where
  "addLike_transaction now db i userId =
     (case map_of db i of
        None \<Rightarrow> Inl ProductNotFound
      | Some data \<Rightarrow>
          if userId \<notin> set (likedBy_or_empty data)
          then Inr (doc_update db i (\<lambda>d. d\<lparr>likedBy := arrayUnion userId (likedBy d),
                                             likes := increment 1 (likes d),
                                             updatedAt := Some now\<rparr>))
          else Inr db)"

definition addLike :: "nat \<Rightarrow> collection \<Rightarrow> string \<Rightarrow> string \<Rightarrow> collection \<times> Product option" where
  "addLike now db i userId =
     (case addLike_transaction now db i userId of
        Inr db' \<Rightarrow> (db', getById db' i)
      | Inl ProductNotFound \<Rightarrow> (db, None))"

text \<open>
  \<^verbatim>\<open>addLike\<close> of repositories/ProductRepository.ts: no transaction and no membership
  test, the update is issued for every existing product.
\<close>

definition addLike_noTransaction :: "nat \<Rightarrow> collection \<Rightarrow> string \<Rightarrow> string \<Rightarrow> collection \<times> Product option" where
  "addLike_noTransaction now db i userId =
     (case map_of db i of
        None \<Rightarrow> (db, None)
      | Some data \<Rightarrow>
          (let db' = doc_update db i (\<lambda>d. d\<lparr>likedBy := arrayUnion userId (likedBy d),
                                             likes := increment 1 (likes d),
                                             updatedAt := Some now\<rparr>)
           in (db', getById db' i)))"


text \<open>
  \<^verbatim>\<open>removeLike\<close> of the transactional repository.  A member is removed and the
  counter is set to \<^verbatim>\<open>Math.max(0, currentLikes - 1)\<close>; for a non-member the
  transaction still issues an update, of \<^verbatim>\<open>likedBy\<close> and \<^verbatim>\<open>updatedAt\<close> only.
\<close>

definition removeLike_transaction :: "nat \<Rightarrow> collection \<Rightarrow> string \<Rightarrow> string \<Rightarrow> error + collection" where
  "removeLike_transaction now db i userId =
     (case map_of db i of
        None \<Rightarrow> Inl ProductNotFound
      | Some data \<Rightarrow>
          if userId \<in> set (likedBy_or_empty data)
          then Inr (doc_update db i (\<lambda>d. d\<lparr>likedBy := arrayRemove userId (likedBy d),
                                             likes := Some (max 0 (currentLikes data - 1)),
                                             updatedAt := Some now\<rparr>))
          else Inr (doc_update db i (\<lambda>d. d\<lparr>likedBy := arrayRemove userId (likedBy d),
                                             updatedAt := Some now\<rparr>)))"

definition removeLike :: "nat \<Rightarrow> collection \<Rightarrow> string \<Rightarrow> string \<Rightarrow> collection \<times> Product option" where
  "removeLike now db i userId =
     (case removeLike_transaction now db i userId of
        Inr db' \<Rightarrow> (db', getById db' i)
      | Inl ProductNotFound \<Rightarrow> (db, None))"

text \<open>
  \<^verbatim>\<open>removeLike\<close> of repositories/ProductRepository.ts: the same two branches, but the
  member branch decrements with \<^verbatim>\<open>FieldValue.increment(-1)\<close>.
\<close>

definition removeLike_noTransaction :: "nat \<Rightarrow> collection \<Rightarrow> string \<Rightarrow> string \<Rightarrow> collection \<times> Product option" where
  "removeLike_noTransaction now db i userId =
     (case map_of db i of
        None \<Rightarrow> (db, None)
      | Some data \<Rightarrow>
          (let db' =
             (if userId \<in> set (likedBy_or_empty data)
              then doc_update db i (\<lambda>d. d\<lparr>likedBy := arrayRemove userId (likedBy d),
                                            likes := increment (- 1) (likes d),
                                            updatedAt := Some now\<rparr>)
              else doc_update db i (\<lambda>d. d\<lparr>likedBy := arrayRemove userId (likedBy d),
                                            updatedAt := Some now\<rparr>))
           in (db', getById db' i)))"

text \<open>\<^verbatim>\<open>adjustLikes\<close>: the counter moves by a signed delta and is clamped at zero.\<close>

definition adjustLikes :: "nat \<Rightarrow> collection \<Rightarrow> string \<Rightarrow> int \<Rightarrow> collection \<times> Product option" where
  "adjustLikes now db i delta =
     (case map_of db i of
        None \<Rightarrow> (db, None)
      | Some data \<Rightarrow>
          (let newLikes = max 0 (currentLikes data + delta);
               db' = doc_update db i (\<lambda>d. d\<lparr>likes := Some newLikes, updatedAt := Some now\<rparr>)
           in (db', getById db' i)))"

subsection \<open>The liked-by-user query\<close>

text \<open>
  \<^verbatim>\<open>getProductsLikedByUser\<close> builds the query
  \<^verbatim>\<open>where('likedBy', 'array-contains', userId).orderBy('updatedAt', 'desc').limit(limit)\<close>
  and adds \<^verbatim>\<open>startAfter(startDoc)\<close> when \<^verbatim>\<open>startAfter\<close> is a non-empty id of an
  existing document.  The query engine is Firestore's; its documented behaviour is written out
  here: a document without the \<^verbatim>\<open>orderBy\<close> field never matches, ties on
  \<^verbatim>\<open>updatedAt\<close> are ordered by document id in the same direction, a snapshot cursor stands
  at the position of that document in this order, and a snapshot that lacks the
  \<^verbatim>\<open>orderBy\<close> field is rejected.
\<close>

datatype query_error = CursorMissingOrderField

definition order_key :: "string \<times> Product \<Rightarrow> nat \<times> string" where
  "order_key e = ((case updatedAt (snd e) of Some t \<Rightarrow> t | None \<Rightarrow> 0), fst e)"

definition query_matches :: "string \<Rightarrow> string \<times> Product \<Rightarrow> bool" where
  "query_matches userId e = (userId \<in> set (likedBy_or_empty (snd e)) \<and> updatedAt (snd e) \<noteq> None)"

definition query_ordered :: "collection \<Rightarrow> string \<Rightarrow> (string \<times> Product) list" where
  "query_ordered db userId = rev (sort_key order_key (filter (query_matches userId) db))"

definition query_get ::
  "collection \<Rightarrow> string \<Rightarrow> nat \<Rightarrow> (string \<times> Product) option \<Rightarrow> query_error + (string \<times> Product) list" where
  "query_get db userId lim cursor =
     (case cursor of
        None \<Rightarrow> Inr (take lim (query_ordered db userId))
      | Some startDoc \<Rightarrow>
          if updatedAt (snd startDoc) = None then Inl CursorMissingOrderField
          else Inr (take lim (filter (\<lambda>e. order_key e < order_key startDoc)
                                     (query_ordered db userId))))"

definition snapshot_to_product :: "string \<times> Product \<Rightarrow> Product" where
  "snapshot_to_product e =
     (snd e)\<lparr>pid := (case pid (snd e) of Some x \<Rightarrow> Some x | None \<Rightarrow> Some (fst e))\<rparr>"

definition getProductsLikedByUser ::
  "collection \<Rightarrow> string \<Rightarrow> nat option \<Rightarrow> string option \<Rightarrow> query_error + Product list" where
  "getProductsLikedByUser db userId limit startAfter =
     (let lim = (case limit of Some n \<Rightarrow> n | None \<Rightarrow> 20);
          cursor =
            (case startAfter of
               None \<Rightarrow> None
             | Some s \<Rightarrow>
                 if s = [] then None
                 else (case map_of db s of
                         Some startDoc \<Rightarrow> Some (s, startDoc)
                       | None \<Rightarrow> None))
      in (case query_get db userId lim cursor of
            Inl e \<Rightarrow> Inl e
          | Inr docs \<Rightarrow> Inr (map snapshot_to_product docs)))"

section \<open>ProductService\<close>

definition ProductService_getProductById :: "collection \<Rightarrow> string \<Rightarrow> Product option" where
  "ProductService_getProductById db i = getById db i"

definition ProductService_changePoints :: "nat \<Rightarrow> collection \<Rightarrow> string \<Rightarrow> int \<Rightarrow> collection \<times> Product option" where
  "ProductService_changePoints now db i delta =
     (case getById db i of
        None \<Rightarrow> (db, None)
      | Some product \<Rightarrow> adjustLikes now db i delta)"

definition ProductService_likeProduct :: "nat \<Rightarrow> collection \<Rightarrow> string \<Rightarrow> string \<Rightarrow> collection \<times> Product option" where
  "ProductService_likeProduct now db productId userId = addLike now db productId userId"

definition ProductService_unlikeProduct :: "nat \<Rightarrow> collection \<Rightarrow> string \<Rightarrow> string \<Rightarrow> collection \<times> Product option" where
  "ProductService_unlikeProduct now db productId userId = removeLike now db productId userId"

definition ProductService_getProductsLikedByUser ::
  "collection \<Rightarrow> string \<Rightarrow> nat option \<Rightarrow> string option \<Rightarrow> query_error + Product list" where
  "ProductService_getProductsLikedByUser db userId limit startAfter =
     getProductsLikedByUser db userId limit startAfter"

section \<open>productController\<close>

text \<open>
  A response body is a JSON object or an array of objects; an object is a finite map from keys
  to values.  \<open>obj_of\<close> is the JavaScript object that stands for a \<^verbatim>\<open>Product\<close>: one
  key for every field that is present.  A call of \<^verbatim>\<open>ResponseHandler\<close> is represented
  by the status it sends and the \<^verbatim>\<open>data\<close> it carries.
\<close>

datatype jval = JNum int | JStr string | JBool bool | JStrs "string list" | JTime nat

type_synonym jobj = "string \<Rightarrow> jval option"

datatype payload = Object jobj | Array "jobj list"

datatype response = Success payload | Unauthorized | NotFound | InternalServerError

definition obj_of :: "Product \<Rightarrow> jobj" where
  "obj_of p =
     map_of (map (\<lambda>(k, v). (k, JStr v)) (attrs p))
       ++ (case pid p of Some x \<Rightarrow> [''id'' \<mapsto> JStr x] | None \<Rightarrow> Map.empty)
       ++ (case likes p of Some n \<Rightarrow> [''likes'' \<mapsto> JNum n] | None \<Rightarrow> Map.empty)
       ++ (case likedBy p of Some xs \<Rightarrow> [''likedBy'' \<mapsto> JStrs xs] | None \<Rightarrow> Map.empty)
       ++ (case createdAt p of Some t \<Rightarrow> [''createdAt'' \<mapsto> JTime t] | None \<Rightarrow> Map.empty)
       ++ (case updatedAt p of Some t \<Rightarrow> [''updatedAt'' \<mapsto> JTime t] | None \<Rightarrow> Map.empty)"

text \<open>
  \<^verbatim>\<open>formatProductResponse\<close>: the rest pattern drops \<^verbatim>\<open>likedBy\<close>, then
  \<^verbatim>\<open>likeCount: product.likes ?? 0\<close> and
  \<^verbatim>\<open>isLikedByUser: userId ? (likedBy?.includes(userId) ?? false) : false\<close> are added.
  The viewer is optional, and an empty string is falsy.
\<close>

definition isLikedByUser :: "Product \<Rightarrow> string option \<Rightarrow> bool" where
  "isLikedByUser product userId =
     (case userId of
        None \<Rightarrow> False
      | Some u \<Rightarrow>
          if u = [] then False
          else (case likedBy product of Some xs \<Rightarrow> u \<in> set xs | None \<Rightarrow> False))"

definition formatProductResponse :: "Product \<Rightarrow> string option \<Rightarrow> jobj" where
  "formatProductResponse product userId =
     (let publicProduct = (obj_of product)(''likedBy'' := None)
      in publicProduct(''likeCount'' \<mapsto> JNum (case likes product of Some n \<Rightarrow> n | None \<Rightarrow> 0),
                       ''isLikedByUser'' \<mapsto> JBool (isLikedByUser product userId)))"



definition likeProduct :: "nat \<Rightarrow> collection \<Rightarrow> string \<Rightarrow> string option \<Rightarrow> collection \<times> response" where
  "likeProduct now db i user =
     (case user of
        None \<Rightarrow> (db, Unauthorized)
      | Some uid \<Rightarrow>
          if uid = [] then (db, Unauthorized)
          else (case ProductService_likeProduct now db i uid of
                  (db', None) \<Rightarrow> (db', NotFound)
                | (db', Some product) \<Rightarrow>
                    (db', Success (Object [''likeCount'' \<mapsto> JNum (currentLikes product),
                                           ''isLikedByUser'' \<mapsto> JBool True]))))"

definition unlikeProduct :: "nat \<Rightarrow> collection \<Rightarrow> string \<Rightarrow> string option \<Rightarrow> collection \<times> response" where
  "unlikeProduct now db i user =
     (case user of
        None \<Rightarrow> (db, Unauthorized)
      | Some uid \<Rightarrow>
          if uid = [] then (db, Unauthorized)
          else (case ProductService_unlikeProduct now db i uid of
                  (db', None) \<Rightarrow> (db', NotFound)
                | (db', Some product) \<Rightarrow>
                    (db', Success (Object [''likeCount'' \<mapsto> JNum (currentLikes product),
                                           ''isLikedByUser'' \<mapsto> JBool False]))))"

text \<open>
  \<^verbatim>\<open>getLikedProducts\<close>; the query parameters arrive parsed: \<open>limit\<close> is
  \<^verbatim>\<open>parseInt(req.query.limit)\<close> when the parameter is given (20 otherwise), and
  \<open>startAfter\<close> is passed through.  The body of the response is the array of projected
  products.
\<close>

definition getLikedProducts :: "collection \<Rightarrow> string option \<Rightarrow> nat option \<Rightarrow> string option \<Rightarrow> response" where
  "getLikedProducts db user limit startAfter =
     (case user of
        None \<Rightarrow> Unauthorized
      | Some uid \<Rightarrow>
          if uid = [] then Unauthorized
          else (case ProductService_getProductsLikedByUser db uid
                       (Some (case limit of Some n \<Rightarrow> n | None \<Rightarrow> 20)) startAfter of
                  Inl e \<Rightarrow> InternalServerError
                | Inr products \<Rightarrow>
                    Success (Array (map (\<lambda>product. formatProductResponse product (Some uid)) products))))"

text \<open>
  \<^verbatim>\<open>getProductById\<close> of controllers/productController.ts, which builds the response
  in place: \<^verbatim>\<open>{ ...product, likeCount: product.likes || 0, isLikedByUser: user &&
  product.likedBy ? product.likedBy.includes(user.uid) : false }\<close>.
\<close>

definition getProductById_inline :: "collection \<Rightarrow> string \<Rightarrow> string option \<Rightarrow> response" where
  "getProductById_inline db i user =
     (case ProductService_getProductById db i of
        None \<Rightarrow> NotFound
      | Some product \<Rightarrow>
          Success (Object ((obj_of product)
            (''likeCount'' \<mapsto> JNum (currentLikes product),
             ''isLikedByUser'' \<mapsto> JBool
                (case user of
                   None \<Rightarrow> False
                 | Some uid \<Rightarrow>
                     (case likedBy product of Some xs \<Rightarrow> uid \<in> set xs | None \<Rightarrow> False))))))"

subsection \<open>The with-details variants\<close>












text \<open>What a response body shows: the value under a key of an object body, and whether the
  key \<^verbatim>\<open>likedBy\<close> occurs in the body (in the object, or in an element of the array).\<close>

definition body_key :: "response \<Rightarrow> string \<Rightarrow> jval option" where
  "body_key r k = (case r of Success (Object obj) \<Rightarrow> obj k | _ \<Rightarrow> None)"

definition exposes_likedBy :: "response \<Rightarrow> bool" where
  "exposes_likedBy r =
     (case r of
        Success (Object obj) \<Rightarrow> obj ''likedBy'' \<noteq> None
      | Success (Array objs) \<Rightarrow> list_ex (\<lambda>obj. obj ''likedBy'' \<noteq> None) objs
      | _ \<Rightarrow> False)"

section \<open>Sequences of operations on one product\<close>

text \<open>
  The operations that write the like fields of a product, as the service offers them, each
  with the server time at which it commits.
\<close>

datatype operation = Like string | Unlike string | ChangePoints int

fun perform :: "string \<Rightarrow> collection \<Rightarrow> nat \<times> operation \<Rightarrow> collection" where
  "perform i db (now, Like u) = fst (ProductService_likeProduct now db i u)"
| "perform i db (now, Unlike u) = fst (ProductService_unlikeProduct now db i u)"
| "perform i db (now, ChangePoints delta) = fst (ProductService_changePoints now db i delta)"

definition run :: "string \<Rightarrow> collection \<Rightarrow> (nat \<times> operation) list \<Rightarrow> collection" where
  "run i db ops = foldl (perform i) db ops"

fun is_like_or_unlike :: "nat \<times> operation \<Rightarrow> bool" where
  "is_like_or_unlike (now, Like u) = True"
| "is_like_or_unlike (now, Unlike u) = True"
| "is_like_or_unlike (now, ChangePoints delta) = False"


section \<open>Example documents\<close>

text \<open>
  A product as \<^verbatim>\<open>createProduct\<close> stores it (\<^verbatim>\<open>likes: 0\<close>, no
  \<^verbatim>\<open>likedBy\<close>), the same product after one like by \<^verbatim>\<open>u1\<close>, and two
  inconsistent records: a member with a counter of zero, and a negative counter.
\<close>

definition coat :: Product where
  "coat = \<lparr>pid = None, likes = Some 0, likedBy = None, createdAt = Some 1, updatedAt = Some 1,
           attrs = [(''name'', ''Winter Coat'')]\<rparr>"

definition coat_liked :: Product where
  "coat_liked = coat\<lparr>likes := Some 1, likedBy := Some [''u1''], updatedAt := Some 2\<rparr>"

definition coat_member_zero :: Product where
  "coat_member_zero = coat\<lparr>likes := Some 0, likedBy := Some [''u1'']\<rparr>"

definition coat_negative :: Product where
  "coat_negative = coat\<lparr>likes := Some (- 2)\<rparr>"

text \<open>
  Four fresh products; \<^verbatim>\<open>u1\<close> likes \<^verbatim>\<open>A\<close>, \<^verbatim>\<open>B\<close> and \<^verbatim>\<open>C\<close> at the
  times 2, 3 and 4 in \<open>liked_ABC\<close>, and only \<^verbatim>\<open>B\<close> and \<^verbatim>\<open>C\<close>, at the same times,
  in \<open>liked_BC\<close>.
\<close>

definition four_products :: collection where
  "four_products = [(''A'', coat), (''B'', coat), (''C'', coat), (''D'', coat)]"

definition liked_BC :: collection where
  "liked_BC = fst (addLike 4 (fst (addLike 3 four_products ''B'' ''u1'')) ''C'' ''u1'')"

definition liked_ABC :: collection where
  "liked_ABC =
     fst (addLike 4 (fst (addLike 3 (fst (addLike 2 four_products ''A'' ''u1'')) ''B'' ''u1''))
            ''C'' ''u1'')"

text \<open>The product that a page of \<^verbatim>\<open>u1\<close>'s liked products returns for the document
  \<open>i\<close> liked at time \<open>t\<close>.\<close>

definition liked_at :: "string \<Rightarrow> nat \<Rightarrow> Product" where
  "liked_at i t = coat\<lparr>pid := Some i, likes := Some 1, likedBy := Some [''u1''], updatedAt := Some t\<rparr>"




section \<open>Basic facts about the collection\<close>

lemma map_of_doc_update:
  "map_of (doc_update db i f) j = (if j = i then map_option f (map_of db i) else map_of db j)"
  by (induction db) (auto simp: doc_update_def)

lemma getById_None_iff: "(getById db i = None) = (map_of db i = None)"
  by (simp add: getById_def split: option.splits)

lemma map_of_fst_addLike:
  assumes "map_of db i = Some d"
  shows "map_of (fst (addLike now db i u)) i =
           Some (if u \<in> set (likedBy_or_empty d) then d
                 else d\<lparr>likedBy := arrayUnion u (likedBy d), likes := increment 1 (likes d),
                        updatedAt := Some now\<rparr>)"
  using assms by (simp add: addLike_def addLike_transaction_def map_of_doc_update)

lemma map_of_fst_removeLike:
  assumes "map_of db i = Some d"
  shows "map_of (fst (removeLike now db i u)) i =
           Some (if u \<in> set (likedBy_or_empty d)
                 then d\<lparr>likedBy := arrayRemove u (likedBy d),
                        likes := Some (max 0 (currentLikes d - 1)), updatedAt := Some now\<rparr>
                 else d\<lparr>likedBy := arrayRemove u (likedBy d), updatedAt := Some now\<rparr>)"
  using assms by (simp add: removeLike_def removeLike_transaction_def map_of_doc_update)

lemma map_of_fst_changePoints:
  assumes "map_of db i = Some d"
  shows "map_of (fst (ProductService_changePoints now db i delta)) i =
           Some (d\<lparr>likes := Some (max 0 (currentLikes d + delta)), updatedAt := Some now\<rparr>)"
  using assms
  by (simp add: ProductService_changePoints_def adjustLikes_def getById_def map_of_doc_update Let_def)

lemma map_of_fst_other:
  assumes "j \<noteq> i"
  shows "map_of (fst (addLike now db i u)) j = map_of db j"
    and "map_of (fst (removeLike now db i u)) j = map_of db j"
    and "map_of (fst (removeLike_noTransaction now db i u)) j = map_of db j"
  using assms
  by (auto simp: addLike_def addLike_transaction_def removeLike_def removeLike_transaction_def
      removeLike_noTransaction_def map_of_doc_update Let_def split: option.splits)

lemma snd_addLike:
  assumes "map_of db i = Some d"
  shows "snd (addLike now db i u) = getById (fst (addLike now db i u)) i"
  using assms by (simp add: addLike_def addLike_transaction_def)

lemma snd_removeLike:
  assumes "map_of db i = Some d"
  shows "snd (removeLike now db i u) = getById (fst (removeLike now db i u)) i"
  using assms by (simp add: removeLike_def removeLike_transaction_def)

lemma arrayRemove_nonmember:
  "u \<notin> set (likedBy_or_empty d) \<Longrightarrow> arrayRemove u (likedBy d) = Some (likedBy_or_empty d)"
  by (simp add: arrayRemove_def likedBy_or_empty_def split: option.splits)

section \<open>Liking a product that is already liked\<close>

text \<open>
  In the transactional repository a like by a member writes nothing: the collection is
  returned as it was, together with the product as it stands.
\<close>

lemma addLike_member_no_mutation:
  assumes "map_of db i = Some data" and "userId \<in> set (likedBy_or_empty data)"
  shows "addLike now db i userId = (db, getById db i) \<and> getById db i \<noteq> None"
  using assms by (simp add: addLike_def addLike_transaction_def getById_def)

lemma addLike_twice_same_count:
  assumes "map_of db i = Some data"
  shows "addLike t2 (fst (addLike t1 db i userId)) i userId
           = (fst (addLike t1 db i userId), snd (addLike t1 db i userId))"
proof -
  let ?db1 = "fst (addLike t1 db i userId)"
  define d1 where
    "d1 = (if userId \<in> set (likedBy_or_empty data) then data
           else data\<lparr>likedBy := arrayUnion userId (likedBy data),
                      likes := increment 1 (likes data), updatedAt := Some t1\<rparr>)"
  have d1: "map_of ?db1 i = Some d1"
    using assms by (simp add: map_of_fst_addLike d1_def)
  have mem: "userId \<in> set (likedBy_or_empty d1)"
    by (simp add: d1_def likedBy_or_empty_def arrayUnion_def split: option.splits)
  have "addLike t2 ?db1 i userId = (?db1, getById ?db1 i)"
    using addLike_member_no_mutation [OF d1 mem] by simp
  then show ?thesis
    using assms by (simp add: snd_addLike)
qed

lemma addLike_twice_absent:
  assumes "map_of db i = None"
  shows "addLike t2 (fst (addLike t1 db i userId)) i userId = addLike t1 db i userId"
  using assms by (simp add: addLike_def addLike_transaction_def)

lemma addLike_twice_any:
  "addLike t2 (fst (addLike t1 db i userId)) i userId = addLike t1 db i userId"
proof (cases "map_of db i")
  case None
  then show ?thesis by (rule addLike_twice_absent)
next
  case (Some data)
  then show ?thesis by (simp add: addLike_twice_same_count)
qed

lemma likeProduct_twice:
  "likeProduct t2 (fst (likeProduct t1 db i user)) i user = likeProduct t1 db i user"
proof (cases user)
  case None
  then show ?thesis by (simp add: likeProduct_def)
next
  case (Some uid)
  show ?thesis
  proof (cases "uid = []")
    case True
    then show ?thesis by (simp add: likeProduct_def Some)
  next
    case False
    have fst_eq: "fst (likeProduct t1 db i user) = fst (addLike t1 db i uid)"
      using False
      by (simp add: likeProduct_def Some ProductService_likeProduct_def
          split: prod.splits option.splits)
    show ?thesis
      unfolding fst_eq
      using False addLike_twice_any [of t2 t1 db i uid]
      by (simp add: likeProduct_def Some ProductService_likeProduct_def
          split: prod.splits option.splits)
  qed
qed

text \<open>
  Claim C1: when the user is already in \<^verbatim>\<open>likedBy\<close>, \<^verbatim>\<open>addLike\<close> writes
  nothing (the collection, and with it the members, the counter and every other field, is
  returned as it was) and returns the product as it stands; so a second like with the same
  product and user returns what the first one returned and leaves what the first one left,
  and the like handler answers both with the same \<^verbatim>\<open>likeCount\<close>.
\<close>

theorem addLike_idempotent:
  "(\<forall>data. map_of db i = Some data \<and> userId \<in> set (likedBy_or_empty data) \<longrightarrow>
       addLike now db i userId
         = (db, Some (data\<lparr>pid := (case pid data of Some x \<Rightarrow> Some x | None \<Rightarrow> Some i)\<rparr>)))
   \<and> addLike t2 (fst (addLike t1 db i userId)) i userId = addLike t1 db i userId
   \<and> likeProduct t2 (fst (likeProduct t1 db i user)) i user = likeProduct t1 db i user"
proof -
  have "addLike now db i userId
          = (db, Some (data\<lparr>pid := (case pid data of Some x \<Rightarrow> Some x | None \<Rightarrow> Some i)\<rparr>))"
    if "map_of db i = Some data" and "userId \<in> set (likedBy_or_empty data)" for data
    using addLike_member_no_mutation [OF that] that(1) by (simp add: getById_def)
  then show ?thesis
    using addLike_twice_any likeProduct_twice by blast
qed


theorem addLike_idempotent_witness:
  "map_of [(''p1'', coat_liked)] ''p1'' = Some coat_liked
   \<and> ''u1'' \<in> set (likedBy_or_empty coat_liked)
   \<and> addLike 3 [(''p1'', coat_liked)] ''p1'' ''u1''
       = ([(''p1'', coat_liked)], Some (coat_liked\<lparr>pid := Some ''p1''\<rparr>))
   \<and> addLike 2 [(''p1'', coat)] ''p1'' ''u1''
       = ([(''p1'', coat_liked)], Some (coat_liked\<lparr>pid := Some ''p1''\<rparr>))
   \<and> addLike 3 (fst (addLike 2 [(''p1'', coat)] ''p1'' ''u1'')) ''p1'' ''u1''
       = ([(''p1'', coat_liked)], Some (coat_liked\<lparr>pid := Some ''p1''\<rparr>))
   \<and> body_key (snd (likeProduct 2 [(''p1'', coat)] ''p1'' (Some ''u1''))) ''likeCount''
       = Some (JNum 1)
   \<and> body_key (snd (likeProduct 3 (fst (likeProduct 2 [(''p1'', coat)] ''p1'' (Some ''u1'')))
                       ''p1'' (Some ''u1''))) ''likeCount''
       = Some (JNum 1)"
proof -
  have h1: "map_of [(''p1'', coat_liked)] ''p1'' = Some coat_liked" by simp
  have h2: "''u1'' \<in> set (likedBy_or_empty coat_liked)"
    by (simp add: likedBy_or_empty_def coat_liked_def)
  have once: "addLike 2 [(''p1'', coat)] ''p1'' ''u1''
                = ([(''p1'', coat_liked)], Some (coat_liked\<lparr>pid := Some ''p1''\<rparr>))"
    by (simp add: addLike_def addLike_transaction_def doc_update_def getById_def arrayUnion_def
        increment_def likedBy_or_empty_def coat_liked_def coat_def)
  have resp: "body_key (snd (likeProduct 2 [(''p1'', coat)] ''p1'' (Some ''u1''))) ''likeCount''
                = Some (JNum 1)"
    by (simp add: likeProduct_def ProductService_likeProduct_def once body_key_def
        currentLikes_def coat_liked_def)
  show ?thesis
    using h1 h2 once resp
      addLike_idempotent [of "[(''p1'', coat_liked)]" "''p1''" "''u1''" 3 3 2 "Some ''u1''"]
      addLike_idempotent [of "[(''p1'', coat)]" "''p1''" "''u1''" 3 3 2 "Some ''u1''"]
    by (simp add: coat_liked_def)
qed

text \<open>
  The revision of \<^verbatim>\<open>addLike\<close> in repositories/ProductRepository.ts, which has no
  membership test, counts the repeated like: on \<open>coat_liked\<close> a second like by
  \<^verbatim>\<open>u1\<close> raises \<^verbatim>\<open>likes\<close> from 1 to 2.
\<close>

lemma addLike_noTransaction_counts_repeated_like:
  "addLike_noTransaction 3 [(''p1'', coat_liked)] ''p1'' ''u1''
     = ([(''p1'', coat_liked\<lparr>likes := Some 2, updatedAt := Some 3\<rparr>)],
        Some (coat_liked\<lparr>pid := Some ''p1'', likes := Some 2, updatedAt := Some 3\<rparr>))"
  by (simp add: addLike_noTransaction_def doc_update_def
      getById_def arrayUnion_def increment_def likedBy_or_empty_def coat_liked_def coat_def)

section \<open>A product that does not exist\<close>

text \<open>
  Claim C5: when no document is stored under the product id, \<^verbatim>\<open>addLike\<close> and
  \<^verbatim>\<open>removeLike\<close> return null and leave the collection as it was, and for an
  authenticated caller the like and unlike handlers answer 404 Not Found.
\<close>

theorem like_unlike_absent_product:
  assumes "map_of db i = None"
  shows "addLike now db i userId = (db, None)
       \<and> removeLike now db i userId = (db, None)
       \<and> (userId \<noteq> [] \<longrightarrow> likeProduct now db i (Some userId) = (db, NotFound)
                          \<and> unlikeProduct now db i (Some userId) = (db, NotFound))"
  using assms
  by (simp add: addLike_def addLike_transaction_def removeLike_def removeLike_transaction_def
      likeProduct_def unlikeProduct_def ProductService_likeProduct_def
      ProductService_unlikeProduct_def)

theorem like_unlike_absent_product_witness:
  "map_of [(''p1'', coat)] ''p2'' = None
   \<and> addLike 5 [(''p1'', coat)] ''p2'' ''u1'' = ([(''p1'', coat)], None)
   \<and> removeLike 5 [(''p1'', coat)] ''p2'' ''u1'' = ([(''p1'', coat)], None)
   \<and> likeProduct 5 [(''p1'', coat)] ''p2'' (Some ''u1'') = ([(''p1'', coat)], NotFound)
   \<and> unlikeProduct 5 [(''p1'', coat)] ''p2'' (Some ''u1'') = ([(''p1'', coat)], NotFound)"
proof -
  have h: "map_of [(''p1'', coat)] ''p2'' = None" by simp
  show ?thesis
    using h like_unlike_absent_product [OF h, of 5 "''u1''"] by simp
qed

section \<open>Unliking\<close>

text \<open>
  Claim C6, as the code has it: when the user is not a member, \<^verbatim>\<open>removeLike\<close> (in both
  repositories, which agree here) succeeds and still writes the document.  The counter, the
  members of \<^verbatim>\<open>likedBy\<close>, \<^verbatim>\<open>createdAt\<close> and the remaining fields are as before, and
  every other document is untouched; but \<^verbatim>\<open>updatedAt\<close> becomes the server time of the
  call, and a missing \<^verbatim>\<open>likedBy\<close> becomes the empty array.
\<close>

theorem removeLike_nonmember_refreshes_updatedAt_only:
  assumes "map_of db i = Some data" and "userId \<notin> set (likedBy_or_empty data)"
  shows "(let data' = data\<lparr>likedBy := Some (likedBy_or_empty data), updatedAt := Some now\<rparr>;
              product' = data'\<lparr>pid := (case pid data of Some x \<Rightarrow> Some x | None \<Rightarrow> Some i)\<rparr>
          in removeLike now db i userId = removeLike_noTransaction now db i userId
           \<and> snd (removeLike now db i userId) = Some product'
           \<and> map_of (fst (removeLike now db i userId)) i = Some data'
           \<and> (\<forall>j. j \<noteq> i \<longrightarrow> map_of (fst (removeLike now db i userId)) j = map_of db j)
           \<and> likes product' = likes data
           \<and> set (likedBy_or_empty product') = set (likedBy_or_empty data)
           \<and> createdAt product' = createdAt data
           \<and> attrs product' = attrs data)"
proof -
  have same: "removeLike now db i userId = removeLike_noTransaction now db i userId"
    using assms
    by (simp add: removeLike_def removeLike_transaction_def removeLike_noTransaction_def Let_def)
  have doc: "map_of (fst (removeLike now db i userId)) i
               = Some (data\<lparr>likedBy := Some (likedBy_or_empty data), updatedAt := Some now\<rparr>)"
    using assms by (simp add: map_of_fst_removeLike arrayRemove_nonmember)
  have ret: "snd (removeLike now db i userId)
               = Some (data\<lparr>likedBy := Some (likedBy_or_empty data), updatedAt := Some now,
                           pid := (case pid data of Some x \<Rightarrow> Some x | None \<Rightarrow> Some i)\<rparr>)"
    using assms(1) doc by (simp add: snd_removeLike getById_def)
  have others: "\<forall>j. j \<noteq> i \<longrightarrow> map_of (fst (removeLike now db i userId)) j = map_of db j"
    by (simp add: map_of_fst_other)
  show ?thesis
    using same doc ret others by (simp add: Let_def likedBy_or_empty_def)
qed

theorem removeLike_nonmember_refreshes_updatedAt_only_witness:
  "map_of [(''p1'', coat_liked)] ''p1'' = Some coat_liked
   \<and> ''u2'' \<notin> set (likedBy_or_empty coat_liked)
   \<and> snd (removeLike 9 [(''p1'', coat_liked)] ''p1'' ''u2'')
       = Some (coat_liked\<lparr>pid := Some ''p1'', updatedAt := Some 9\<rparr>)
   \<and> map_of (fst (removeLike 9 [(''p1'', coat_liked)] ''p1'' ''u2'')) ''p1''
       = Some (coat_liked\<lparr>updatedAt := Some 9\<rparr>)"
proof -
  have h1: "map_of [(''p1'', coat_liked)] ''p1'' = Some coat_liked" by simp
  have h2: "''u2'' \<notin> set (likedBy_or_empty coat_liked)"
    by (simp add: likedBy_or_empty_def coat_liked_def)
  show ?thesis
    using h1 h2 removeLike_nonmember_refreshes_updatedAt_only [OF h1 h2, of 9]
    by (simp add: Let_def removeLike_def removeLike_transaction_def removeLike_noTransaction_def
        doc_update_def getById_def arrayRemove_def likedBy_or_empty_def coat_liked_def coat_def)
qed

text \<open>
  The claim as it is written (no mutation at all, \<^verbatim>\<open>updatedAt\<close> included) fails: an
  unlike at time 9 by \<^verbatim>\<open>u2\<close>, who never liked the product, moves \<^verbatim>\<open>updatedAt\<close>
  from 2 to 9.
\<close>

theorem removeLike_nonmember_changes_updatedAt:
  "map_option updatedAt (snd (removeLike 9 [(''p1'', coat_liked)] ''p1'' ''u2'')) = Some (Some 9)
   \<and> updatedAt coat_liked = Some 2
   \<and> fst (removeLike 9 [(''p1'', coat_liked)] ''p1'' ''u2'') \<noteq> [(''p1'', coat_liked)]"
  by (simp add: removeLike_def removeLike_transaction_def doc_update_def
      getById_def arrayRemove_def likedBy_or_empty_def coat_liked_def coat_def)

text \<open>
  In the transactional repository a successful unlike always leaves the user outside
  \<^verbatim>\<open>likedBy\<close>, and a member whose product has a counter of zero is removed while the
  counter stays at zero.
\<close>

lemma removeLike_clears_membership:
  assumes "map_of db i = Some data"
  shows "\<exists>p. snd (removeLike now db i userId) = Some p
            \<and> userId \<notin> set (likedBy_or_empty p)
            \<and> (userId \<in> set (likedBy_or_empty data) \<and> currentLikes data = 0
                 \<longrightarrow> currentLikes p = 0)"
proof -
  define d' where
    "d' = (if userId \<in> set (likedBy_or_empty data)
           then data\<lparr>likedBy := arrayRemove userId (likedBy data),
                      likes := Some (max 0 (currentLikes data - 1)), updatedAt := Some now\<rparr>
           else data\<lparr>likedBy := arrayRemove userId (likedBy data), updatedAt := Some now\<rparr>)"
  have d': "map_of (fst (removeLike now db i userId)) i = Some d'"
    using assms by (simp add: map_of_fst_removeLike d'_def)
  have out: "userId \<notin> set (likedBy_or_empty d')"
    by (simp add: d'_def likedBy_or_empty_def arrayRemove_def split: option.splits)
  have zero: "userId \<in> set (likedBy_or_empty data) \<and> currentLikes data = 0 \<longrightarrow> currentLikes d' = 0"
    by (simp add: d'_def currentLikes_def)
  have "snd (removeLike now db i userId)
          = Some (d'\<lparr>pid := (case pid d' of Some x \<Rightarrow> Some x | None \<Rightarrow> Some i)\<rparr>)"
    using assms d' by (simp add: snd_removeLike getById_def)
  then show ?thesis
    using out zero by (simp add: likedBy_or_empty_def currentLikes_def)
qed

lemma removeLike_result:
  assumes "map_of db i = Some data"
  shows "\<exists>d'. map_of (fst (removeLike now db i userId)) i = Some d'
            \<and> snd (removeLike now db i userId)
                = Some (d'\<lparr>pid := (case pid data of Some x \<Rightarrow> Some x | None \<Rightarrow> Some i)\<rparr>)
            \<and> likedBy d' = Some (removeAll userId (likedBy_or_empty data))
            \<and> likes d' = (if userId \<in> set (likedBy_or_empty data)
                           then Some (max 0 (currentLikes data - 1)) else likes data)"
proof -
  define d' where
    "d' = (if userId \<in> set (likedBy_or_empty data)
           then data\<lparr>likedBy := arrayRemove userId (likedBy data),
                      likes := Some (max 0 (currentLikes data - 1)), updatedAt := Some now\<rparr>
           else data\<lparr>likedBy := arrayRemove userId (likedBy data), updatedAt := Some now\<rparr>)"
  have stored: "map_of (fst (removeLike now db i userId)) i = Some d'"
    using assms by (simp add: map_of_fst_removeLike d'_def)
  have same_pid: "pid d' = pid data"
    by (simp add: d'_def)
  have ret: "snd (removeLike now db i userId)
               = Some (d'\<lparr>pid := (case pid data of Some x \<Rightarrow> Some x | None \<Rightarrow> Some i)\<rparr>)"
    using assms stored by (simp add: snd_removeLike getById_def same_pid)
  have members: "likedBy d' = Some (removeAll userId (likedBy_or_empty data))"
    by (simp add: d'_def arrayRemove_def likedBy_or_empty_def split: option.splits)
  have counter: "likes d' = (if userId \<in> set (likedBy_or_empty data)
                             then Some (max 0 (currentLikes data - 1)) else likes data)"
    by (simp add: d'_def)
  show ?thesis using stored ret members counter by blast
qed

text \<open>
  Claim C10: after a successful \<^verbatim>\<open>removeLike\<close> the user is in \<^verbatim>\<open>likedBy\<close>
  neither of the product returned nor of the document stored; and when the user was a member
  of a product whose counter was 0, both have a counter of 0: the member is removed and the
  counter is not taken below zero.
\<close>

theorem removeLike_always_clears_membership:
  assumes "map_of db i = Some data"
  shows "\<exists>p d'. snd (removeLike now db i userId) = Some p
            \<and> map_of (fst (removeLike now db i userId)) i = Some d'
            \<and> userId \<notin> set (likedBy_or_empty p)
            \<and> userId \<notin> set (likedBy_or_empty d')
            \<and> (userId \<in> set (likedBy_or_empty data) \<and> currentLikes data = 0
                  \<longrightarrow> currentLikes p = 0 \<and> currentLikes d' = 0)"
proof -
  from removeLike_result [OF assms, of now userId]
  obtain d' where stored: "map_of (fst (removeLike now db i userId)) i = Some d'"
    and ret: "snd (removeLike now db i userId)
                = Some (d'\<lparr>pid := (case pid data of Some x \<Rightarrow> Some x | None \<Rightarrow> Some i)\<rparr>)"
    and members: "likedBy d' = Some (removeAll userId (likedBy_or_empty data))"
    and counter: "likes d' = (if userId \<in> set (likedBy_or_empty data)
                              then Some (max 0 (currentLikes data - 1)) else likes data)"
    by blast
  have out: "userId \<notin> set (likedBy_or_empty d')"
    by (simp add: likedBy_or_empty_def members)
  have zero: "currentLikes d' = 0"
    if "userId \<in> set (likedBy_or_empty data)" and "currentLikes data = 0"
    using that counter by (simp add: currentLikes_def)
  show ?thesis
    using stored ret out zero
    by (auto simp: likedBy_or_empty_def currentLikes_def)
qed

theorem removeLike_always_clears_membership_witness:
  "map_of [(''p1'', coat_member_zero)] ''p1'' = Some coat_member_zero
   \<and> ''u1'' \<in> set (likedBy_or_empty coat_member_zero)
   \<and> currentLikes coat_member_zero = 0
   \<and> removeLike 3 [(''p1'', coat_member_zero)] ''p1'' ''u1''
       = ([(''p1'', coat_member_zero\<lparr>likedBy := Some [], updatedAt := Some 3\<rparr>)],
          Some (coat_member_zero\<lparr>pid := Some ''p1'', likedBy := Some [], updatedAt := Some 3\<rparr>))
   \<and> ''u1'' \<notin> set (likedBy_or_empty (coat_member_zero\<lparr>likedBy := Some [], updatedAt := Some 3\<rparr>))
   \<and> currentLikes (coat_member_zero\<lparr>likedBy := Some [], updatedAt := Some 3\<rparr>) = 0"
proof -
  have h: "map_of [(''p1'', coat_member_zero)] ''p1'' = Some coat_member_zero" by simp
  have r: "removeLike 3 [(''p1'', coat_member_zero)] ''p1'' ''u1''
       = ([(''p1'', coat_member_zero\<lparr>likedBy := Some [], updatedAt := Some 3\<rparr>)],
          Some (coat_member_zero\<lparr>pid := Some ''p1'', likedBy := Some [], updatedAt := Some 3\<rparr>))"
    by (simp add: removeLike_def removeLike_transaction_def doc_update_def getById_def
        arrayRemove_def likedBy_or_empty_def currentLikes_def coat_member_zero_def coat_def)
  show ?thesis
    using h r removeLike_always_clears_membership [OF h, of 3 "''u1''"]
    by (simp add: likedBy_or_empty_def currentLikes_def coat_member_zero_def coat_def)
qed

text \<open>
  The revision of \<^verbatim>\<open>removeLike\<close> in repositories/ProductRepository.ts decrements with
  \<^verbatim>\<open>FieldValue.increment(-1)\<close>: on \<open>coat_member_zero\<close> it removes the member and
  stores a counter of \<open>- 1\<close>.
\<close>

lemma removeLike_noTransaction_negative_counter:
  "removeLike_noTransaction 3 [(''p1'', coat_member_zero)] ''p1'' ''u1''
     = ([(''p1'', coat_member_zero\<lparr>likedBy := Some [], likes := Some (- 1), updatedAt := Some 3\<rparr>)],
        Some (coat_member_zero\<lparr>pid := Some ''p1'', likedBy := Some [], likes := Some (- 1),
                               updatedAt := Some 3\<rparr>))"
  by (simp add: removeLike_noTransaction_def doc_update_def
      getById_def arrayRemove_def increment_def likedBy_or_empty_def
      coat_member_zero_def coat_def)

section \<open>The projected view\<close>


text \<open>
  Claim C7: in the projected view \<^verbatim>\<open>likeCount\<close> is the product's \<^verbatim>\<open>likes\<close>
  field, or 0 when the field is missing; \<^verbatim>\<open>isLikedByUser\<close> is false when there is no
  viewer (no user id, or the empty string, which JavaScript takes for absent), and for a viewer
  it is true exactly when the viewer's id is in \<^verbatim>\<open>likedBy\<close>, false when
  \<^verbatim>\<open>likedBy\<close> is missing.
\<close>

theorem formatProductResponse_projection:
  "(likes product = None \<longrightarrow> formatProductResponse product viewer ''likeCount'' = Some (JNum 0))
   \<and> (\<forall>n. likes product = Some n \<longrightarrow>
          formatProductResponse product viewer ''likeCount'' = Some (JNum n))
   \<and> (viewer = None \<or> viewer = Some [] \<longrightarrow>
          formatProductResponse product viewer ''isLikedByUser'' = Some (JBool False))
   \<and> (\<forall>u. viewer = Some u \<and> u \<noteq> [] \<longrightarrow>
          formatProductResponse product viewer ''isLikedByUser''
            = Some (JBool (case likedBy product of Some xs \<Rightarrow> u \<in> set xs | None \<Rightarrow> False)))"
  by (auto simp: formatProductResponse_def isLikedByUser_def Let_def)

theorem formatProductResponse_projection_witness:
  "likes coat_liked = Some 1
   \<and> formatProductResponse coat_liked (Some ''u1'') ''likeCount'' = Some (JNum 1)
   \<and> formatProductResponse coat_liked (Some ''u1'') ''isLikedByUser'' = Some (JBool True)
   \<and> formatProductResponse coat_liked (Some ''u2'') ''isLikedByUser'' = Some (JBool False)
   \<and> likes (coat\<lparr>likes := None\<rparr>) = None
   \<and> formatProductResponse (coat\<lparr>likes := None\<rparr>) None ''likeCount'' = Some (JNum 0)
   \<and> formatProductResponse (coat\<lparr>likes := None\<rparr>) None ''isLikedByUser'' = Some (JBool False)"
  using formatProductResponse_projection [of coat_liked "Some ''u1''"]
        formatProductResponse_projection [of coat_liked "Some ''u2''"]
        formatProductResponse_projection [of "coat\<lparr>likes := None\<rparr>" None]
  by (simp add: coat_liked_def coat_def)

section \<open>Privacy\<close>











text \<open>
  The predicate is not empty: \<^verbatim>\<open>getProductById\<close> of controllers/productController.ts,
  which spreads the whole product into the response, sends \<^verbatim>\<open>likedBy = ['u1']\<close> to the
  viewer \<^verbatim>\<open>u2\<close>.
\<close>

lemma getProductById_inline_exposes_likedBy:
  "body_key (getProductById_inline [(''p1'', coat_liked)] ''p1'' (Some ''u2'')) ''likedBy''
     = Some (JStrs [''u1''])
   \<and> exposes_likedBy (getProductById_inline [(''p1'', coat_liked)] ''p1'' (Some ''u2''))"
  by (simp add: body_key_def exposes_likedBy_def getProductById_inline_def
      ProductService_getProductById_def getById_def obj_of_def coat_liked_def coat_def)

section \<open>Invariants of the counter\<close>

lemma map_of_perform_exists:
  assumes "map_of db i = Some d"
  shows "\<exists>d'. map_of (perform i db (now, op)) i = Some d'"
  using assms
  by (cases op)
     (simp_all add: ProductService_likeProduct_def ProductService_unlikeProduct_def
        map_of_fst_addLike map_of_fst_removeLike map_of_fst_changePoints)

lemma length_removeAll_distinct:
  "distinct xs \<Longrightarrow> u \<in> set xs \<Longrightarrow> Suc (length (removeAll u xs)) = length xs"
  by (induction xs) auto

lemma perform_keeps_consistency:
  assumes "map_of db i = Some d"
    and "currentLikes d = int (length (likedBy_or_empty d))"
    and "distinct (likedBy_or_empty d)"
    and "is_like_or_unlike (now, op)"
  shows "\<exists>d'. map_of (perform i db (now, op)) i = Some d'
            \<and> currentLikes d' = int (length (likedBy_or_empty d'))
            \<and> distinct (likedBy_or_empty d')"
proof (cases op)
  case (Like u)
  show ?thesis
    using assms(1-3)
    by (auto simp: Like ProductService_likeProduct_def map_of_fst_addLike arrayUnion_def
        increment_def likedBy_or_empty_def currentLikes_def split: option.splits)
next
  case (Unlike u)
  show ?thesis
  proof (cases "u \<in> set (likedBy_or_empty d)")
    case True
    have len: "int (length (removeAll u (likedBy_or_empty d))) = int (length (likedBy_or_empty d)) - 1"
      using length_removeAll_distinct [OF assms(3) True] by linarith
    have lb: "arrayRemove u (likedBy d) = Some (removeAll u (likedBy_or_empty d))"
      by (simp add: arrayRemove_def likedBy_or_empty_def split: option.splits)
    define d' where
      "d' = d\<lparr>likedBy := Some (removeAll u (likedBy_or_empty d)),
               likes := Some (max 0 (currentLikes d - 1)), updatedAt := Some now\<rparr>"
    have stored: "map_of (perform i db (now, op)) i = Some d'"
      using assms(1) True
      by (simp add: Unlike ProductService_unlikeProduct_def map_of_fst_removeLike lb d'_def)
    have members: "likedBy_or_empty d' = removeAll u (likedBy_or_empty d)"
      by (simp add: d'_def likedBy_or_empty_def)
    have counter: "currentLikes d' = max 0 (currentLikes d - 1)"
      by (simp add: d'_def currentLikes_def)
    have "currentLikes d' = int (length (likedBy_or_empty d'))"
      using assms(2) len by (simp add: members counter)
    moreover have "distinct (likedBy_or_empty d')"
      using assms(3) by (simp add: members distinct_removeAll)
    ultimately show ?thesis using stored by blast
  next
    case False
    define d' where "d' = d\<lparr>likedBy := Some (likedBy_or_empty d), updatedAt := Some now\<rparr>"
    have stored: "map_of (perform i db (now, op)) i = Some d'"
      using assms(1) False
      by (simp add: Unlike ProductService_unlikeProduct_def map_of_fst_removeLike
          arrayRemove_nonmember d'_def)
    have members: "likedBy_or_empty d' = likedBy_or_empty d"
      by (simp add: d'_def likedBy_or_empty_def)
    have counter: "currentLikes d' = currentLikes d"
      by (simp add: d'_def currentLikes_def)
    show ?thesis
      using stored assms(2,3) by (simp add: members counter)
  qed
next
  case (ChangePoints delta)
  then show ?thesis using assms(4) by simp
qed

lemma run_keeps_consistency:
  assumes "list_all is_like_or_unlike ops"
    and "map_of db i = Some d"
    and "currentLikes d = int (length (likedBy_or_empty d))"
    and "distinct (likedBy_or_empty d)"
  shows "\<exists>d'. map_of (run i db ops) i = Some d'
            \<and> currentLikes d' = int (length (likedBy_or_empty d'))
            \<and> distinct (likedBy_or_empty d')"
  using assms
proof (induction ops arbitrary: db d)
  case Nil
  then show ?case by (simp add: run_def)
next
  case (Cons x ops)
  obtain now op where x: "x = (now, op)" by (cases x)
  from Cons.prems have likeish: "is_like_or_unlike (now, op)" and rest: "list_all is_like_or_unlike ops"
    by (simp_all add: x)
  from perform_keeps_consistency [OF Cons.prems(2) Cons.prems(3) Cons.prems(4) likeish]
  obtain d1 where d1: "map_of (perform i db (now, op)) i = Some d1"
    and c1: "currentLikes d1 = int (length (likedBy_or_empty d1))"
    and dist1: "distinct (likedBy_or_empty d1)"
    by blast
  from Cons.IH [OF rest d1 c1 dist1] show ?case
    by (simp add: run_def x)
qed

text \<open>
  Claim C2, as the code has it: from a product whose \<^verbatim>\<open>likedBy\<close> is empty and whose
  counter is 0, every sequence of like and unlike operations (of the transactional repository)
  leads to a product whose counter equals the number of distinct users in \<^verbatim>\<open>likedBy\<close>.
  Operations that write the counter alone are left out.
\<close>

theorem like_unlike_counter_equals_cardinality:
  assumes "map_of db i = Some data"
    and "currentLikes data = 0"
    and "likedBy_or_empty data = []"
    and "list_all is_like_or_unlike ops"
  shows "\<exists>d. map_of (run i db ops) i = Some d
           \<and> currentLikes d = int (card (set (likedBy_or_empty d)))"
proof -
  from run_keeps_consistency [OF assms(4) assms(1)] assms(2,3)
  obtain d where d: "map_of (run i db ops) i = Some d"
    and c: "currentLikes d = int (length (likedBy_or_empty d))"
    and dist: "distinct (likedBy_or_empty d)"
    by auto
  from dist have "card (set (likedBy_or_empty d)) = length (likedBy_or_empty d)"
    by (rule distinct_card)
  with d c show ?thesis by simp
qed


theorem like_unlike_counter_equals_cardinality_witness:
  "map_of [(''p1'', coat)] ''p1'' = Some coat
   \<and> currentLikes coat = 0
   \<and> likedBy_or_empty coat = []
   \<and> list_all is_like_or_unlike [(2, Like ''u1''), (3, Like ''u1''), (4, Like ''u2''), (5, Unlike ''u1'')]
   \<and> map_of (run ''p1'' [(''p1'', coat)]
               [(2, Like ''u1''), (3, Like ''u1''), (4, Like ''u2''), (5, Unlike ''u1'')]) ''p1''
       = Some (coat\<lparr>likes := Some 1, likedBy := Some [''u2''], updatedAt := Some 5\<rparr>)
   \<and> currentLikes (coat\<lparr>likes := Some 1, likedBy := Some [''u2''], updatedAt := Some 5\<rparr>)
       = int (card (set (likedBy_or_empty
               (coat\<lparr>likes := Some 1, likedBy := Some [''u2''], updatedAt := Some 5\<rparr>))))"
proof -
  have h1: "map_of [(''p1'', coat)] ''p1'' = Some coat" by simp
  have h2: "currentLikes coat = 0" by (simp add: currentLikes_def coat_def)
  have h3: "likedBy_or_empty coat = []" by (simp add: likedBy_or_empty_def coat_def)
  have h4: "list_all is_like_or_unlike
              [(2, Like ''u1''), (3, Like ''u1''), (4, Like ''u2''), (5, Unlike ''u1'')]"
    by simp
  have r: "run ''p1'' [(''p1'', coat)]
             [(2, Like ''u1''), (3, Like ''u1''), (4, Like ''u2''), (5, Unlike ''u1'')]
           = [(''p1'', coat\<lparr>likes := Some 1, likedBy := Some [''u2''], updatedAt := Some 5\<rparr>)]"
    by (simp add: run_def ProductService_likeProduct_def ProductService_unlikeProduct_def
        addLike_def addLike_transaction_def removeLike_def removeLike_transaction_def
        doc_update_def arrayUnion_def arrayRemove_def increment_def likedBy_or_empty_def
        currentLikes_def coat_def)
  show ?thesis
    using h1 h2 h3 h4 like_unlike_counter_equals_cardinality [OF h1 h2 h3 h4]
    by (simp add: r)
qed

text \<open>
  With \<^verbatim>\<open>changePoints\<close> among the operations the claim fails: one
  \<^verbatim>\<open>changePoints(+1)\<close> on a fresh product gives a counter of 1 over an empty
  \<^verbatim>\<open>likedBy\<close>.
\<close>

theorem changePoints_breaks_counter_equals_cardinality:
  "currentLikes coat = 0
   \<and> likedBy_or_empty coat = []
   \<and> map_of (run ''p1'' [(''p1'', coat)] [(2, ChangePoints 1)]) ''p1''
       = Some (coat\<lparr>likes := Some 1, updatedAt := Some 2\<rparr>)
   \<and> currentLikes (coat\<lparr>likes := Some 1, updatedAt := Some 2\<rparr>) = 1
   \<and> card (set (likedBy_or_empty (coat\<lparr>likes := Some 1, updatedAt := Some 2\<rparr>))) = 0"
  by (simp add: run_def ProductService_changePoints_def adjustLikes_def getById_def
      doc_update_def likedBy_or_empty_def currentLikes_def coat_def)

lemma perform_keeps_nonnegative:
  assumes "map_of db i = Some d" and "0 \<le> currentLikes d"
  shows "\<exists>d'. map_of (perform i db (now, op)) i = Some d' \<and> 0 \<le> currentLikes d'"
  using assms
  by (cases op)
     (auto simp: ProductService_likeProduct_def ProductService_unlikeProduct_def
        map_of_fst_addLike map_of_fst_removeLike map_of_fst_changePoints
        increment_def currentLikes_def split: option.splits)

lemma run_keeps_nonnegative:
  assumes "map_of db i = Some d" and "0 \<le> currentLikes d"
  shows "\<exists>d'. map_of (run i db ops) i = Some d' \<and> 0 \<le> currentLikes d'"
  using assms
proof (induction ops arbitrary: db d)
  case Nil
  then show ?case by (simp add: run_def)
next
  case (Cons x ops)
  obtain now op where x: "x = (now, op)" by (cases x)
  from perform_keeps_nonnegative [OF Cons.prems]
  obtain d1 where d1: "map_of (perform i db (now, op)) i = Some d1" and n1: "0 \<le> currentLikes d1"
    by blast
  from Cons.IH [OF d1 n1] show ?case
    by (simp add: run_def x)
qed

lemma removeLike_member_clamped:
  assumes "map_of db i = Some data" and "userId \<in> set (likedBy_or_empty data)"
  shows "\<exists>p. snd (removeLike now db i userId) = Some p
            \<and> likes p = Some (max 0 (currentLikes data - 1)) \<and> 0 \<le> currentLikes p"
proof -
  have "map_of (fst (removeLike now db i userId)) i
          = Some (data\<lparr>likedBy := arrayRemove userId (likedBy data),
                        likes := Some (max 0 (currentLikes data - 1)), updatedAt := Some now\<rparr>)"
    using assms by (simp add: map_of_fst_removeLike)
  then show ?thesis
    using assms(1) by (simp add: snd_removeLike getById_def currentLikes_def)
qed

lemma adjustLikes_clamped:
  assumes "map_of db i = Some data"
  shows "\<exists>p. snd (adjustLikes now db i delta) = Some p
            \<and> likes p = Some (max 0 (currentLikes data + delta)) \<and> 0 \<le> currentLikes p"
  using assms
  by (simp add: adjustLikes_def Let_def getById_def map_of_doc_update currentLikes_def)

text \<open>
  Claim C3, as the code has it: from any prior state whose counter is not negative, also one
  where the counter disagrees with \<^verbatim>\<open>likedBy\<close>, the counter is not negative after any
  sequence of like, unlike and \<^verbatim>\<open>changePoints\<close> operations, hence after each of them;
  and from every prior state the unlike of a member and \<^verbatim>\<open>adjustLikes\<close> store a
  counter clamped at 0.
\<close>

theorem likes_never_negative:
  "(map_of db i = Some data \<and> 0 \<le> currentLikes data \<longrightarrow>
      (\<exists>d. map_of (run i db ops) i = Some d \<and> 0 \<le> currentLikes d))
   \<and> (map_of db i = Some data \<and> userId \<in> set (likedBy_or_empty data) \<longrightarrow>
      (\<exists>p. snd (removeLike now db i userId) = Some p
          \<and> likes p = Some (max 0 (currentLikes data - 1)) \<and> 0 \<le> currentLikes p))
   \<and> (map_of db i = Some data \<longrightarrow>
      (\<exists>p. snd (adjustLikes now db i delta) = Some p
          \<and> likes p = Some (max 0 (currentLikes data + delta)) \<and> 0 \<le> currentLikes p))"
  using run_keeps_nonnegative removeLike_member_clamped adjustLikes_clamped by blast

theorem likes_never_negative_witness:
  "map_of [(''p1'', coat_member_zero)] ''p1'' = Some coat_member_zero
   \<and> 0 \<le> currentLikes coat_member_zero
   \<and> ''u1'' \<in> set (likedBy_or_empty coat_member_zero)
   \<and> map_of (run ''p1'' [(''p1'', coat_member_zero)]
               [(2, Unlike ''u1''), (3, Unlike ''u1''), (4, ChangePoints (- 5)), (5, Like ''u2'')]) ''p1''
       = Some (coat_member_zero\<lparr>likes := Some 1, likedBy := Some [''u2''], updatedAt := Some 5\<rparr>)
   \<and> map_option likes (snd (removeLike 2 [(''p1'', coat_member_zero)] ''p1'' ''u1'')) = Some (Some 0)
   \<and> map_option likes (snd (adjustLikes 2 [(''p1'', coat_member_zero)] ''p1'' (- 5))) = Some (Some 0)"
proof -
  have r: "run ''p1'' [(''p1'', coat_member_zero)]
             [(2, Unlike ''u1''), (3, Unlike ''u1''), (4, ChangePoints (- 5)), (5, Like ''u2'')]
           = [(''p1'', coat_member_zero\<lparr>likes := Some 1, likedBy := Some [''u2''],
                                         updatedAt := Some 5\<rparr>)]"
    by (simp add: run_def ProductService_likeProduct_def ProductService_unlikeProduct_def
        ProductService_changePoints_def adjustLikes_def getById_def
        addLike_def addLike_transaction_def removeLike_def removeLike_transaction_def
        doc_update_def arrayUnion_def arrayRemove_def increment_def likedBy_or_empty_def
        currentLikes_def coat_member_zero_def coat_def)
  have h1: "map_of [(''p1'', coat_member_zero)] ''p1'' = Some coat_member_zero" by simp
  have h2: "0 \<le> currentLikes coat_member_zero"
    by (simp add: currentLikes_def coat_member_zero_def coat_def)
  have h3: "''u1'' \<in> set (likedBy_or_empty coat_member_zero)"
    by (simp add: likedBy_or_empty_def coat_member_zero_def coat_def)
  have a: "map_option likes (snd (removeLike 2 [(''p1'', coat_member_zero)] ''p1'' ''u1''))
             = Some (Some 0)"
    by (simp add: removeLike_def removeLike_transaction_def getById_def
        doc_update_def arrayRemove_def likedBy_or_empty_def currentLikes_def
        coat_member_zero_def coat_def)
  have b: "map_option likes (snd (adjustLikes 2 [(''p1'', coat_member_zero)] ''p1'' (- 5)))
             = Some (Some 0)"
    by (simp add: adjustLikes_def getById_def doc_update_def currentLikes_def
        coat_member_zero_def coat_def)
  show ?thesis
    using likes_never_negative [of "[(''p1'', coat_member_zero)]" "''p1''" coat_member_zero
            "[(2, Unlike ''u1''), (3, Unlike ''u1''), (4, ChangePoints (- 5)), (5, Like ''u2'')]"
            "''u1''" 2 "- 5"]
          h1 h2 h3 a b
    by (simp add: r)
qed

text \<open>
  From a prior state whose counter is already negative the claim fails: a like adds 1 to
  \<open>- 2\<close>, and the unlike of a non-member does not touch the counter.
\<close>

theorem addLike_keeps_negative_counter_negative:
  "currentLikes coat_negative = - 2
   \<and> map_option currentLikes (snd (addLike 3 [(''p1'', coat_negative)] ''p1'' ''u1'')) = Some (- 1)
   \<and> map_option currentLikes (snd (removeLike 3 [(''p1'', coat_negative)] ''p1'' ''u1'')) = Some (- 2)"
  by (simp add: addLike_def addLike_transaction_def removeLike_def removeLike_transaction_def
      getById_def doc_update_def arrayUnion_def arrayRemove_def increment_def
      likedBy_or_empty_def currentLikes_def coat_negative_def coat_def)

section \<open>The pages of the liked-by-user query\<close>

lemma query_ordered_three:
  assumes dist: "distinct (map fst db)"
    and a: "map_of db a = Some pa" and b: "map_of db b = Some pb" and c: "map_of db c = Some pc"
    and liked: "\<forall>e \<in> set db. (user \<in> set (likedBy_or_empty (snd e))) = (fst e \<in> {a, b, c})"
    and ta: "updatedAt pa = Some ta" and tb: "updatedAt pb = Some tb" and tc: "updatedAt pc = Some tc"
    and ab: "ta < tb" and bc: "tb < tc"
  shows "query_ordered db user = [(c, pc), (b, pb), (a, pa)]"
proof -
  let ?m = "filter (query_matches user) db"
  have mem: "(x, y) \<in> set db \<longleftrightarrow> map_of db x = Some y" for x y
    using dist by simp
  have in_db: "(a, pa) \<in> set db" "(b, pb) \<in> set db" "(c, pc) \<in> set db"
    using a b c by (simp_all add: mem)
  have set_m: "set ?m = {(a, pa), (b, pb), (c, pc)}"
  proof (rule set_eqI)
    fix e :: "string \<times> Product"
    obtain x y where e: "e = (x, y)" by (cases e)
    show "e \<in> set ?m \<longleftrightarrow> e \<in> {(a, pa), (b, pb), (c, pc)}"
    proof
      assume "e \<in> set ?m"
      then have edb: "(x, y) \<in> set db" and "user \<in> set (likedBy_or_empty y)"
        by (simp_all add: e query_matches_def)
      with liked have "x \<in> {a, b, c}" by fastforce
      moreover from edb have "map_of db x = Some y" by (simp add: mem)
      ultimately show "e \<in> {(a, pa), (b, pb), (c, pc)}"
        using a b c by (auto simp: e)
    next
      assume "e \<in> {(a, pa), (b, pb), (c, pc)}"
      then consider "e = (a, pa)" | "e = (b, pb)" | "e = (c, pc)" by auto
      then show "e \<in> set ?m"
      proof cases
        case 1
        with liked in_db(1) ta show ?thesis by (fastforce simp: query_matches_def)
      next
        case 2
        with liked in_db(2) tb show ?thesis by (fastforce simp: query_matches_def)
      next
        case 3
        with liked in_db(3) tc show ?thesis by (fastforce simp: query_matches_def)
      qed
    qed
  qed
  have neq: "a \<noteq> b" "b \<noteq> c" "a \<noteq> c"
    using a b c ta tb tc ab bc by auto
  have dist_m: "distinct ?m"
    using dist by (simp add: distinct_map)
  have "mset ?m = mset [(a, pa), (b, pb), (c, pc)]"
    using dist_m set_m neq by (subst set_eq_iff_mset_eq_distinct [symmetric]) auto
  moreover have "inj_on order_key (set ?m)"
    unfolding set_m using neq by (auto simp: order_key_def inj_on_def)
  moreover have "sorted (map order_key [(a, pa), (b, pb), (c, pc)])"
    using ta tb tc ab bc by (simp add: order_key_def)
  ultimately have "sort_key order_key ?m = [(a, pa), (b, pb), (c, pc)]"
    by (rule sort_key_inj_key_eq)
  then show ?thesis by (simp add: query_ordered_def)
qed

lemma getProductsLikedByUser_two_pages:
  assumes dist: "distinct (map fst db)"
    and a: "map_of db a = Some pa" and b: "map_of db b = Some pb" and c: "map_of db c = Some pc"
    and liked: "\<forall>e \<in> set db. (user \<in> set (likedBy_or_empty (snd e))) = (fst e \<in> {a, b, c})"
    and ta: "updatedAt pa = Some ta" and tb: "updatedAt pb = Some tb" and tc: "updatedAt pc = Some tc"
    and ab: "ta < tb" and bc: "tb < tc"
    and cursor: "b \<noteq> []"
  shows "getProductsLikedByUser db user (Some 2) None
           = Inr [snapshot_to_product (c, pc), snapshot_to_product (b, pb)]"
    and "getProductsLikedByUser db user (Some 2) (Some b) = Inr [snapshot_to_product (a, pa)]"
proof -
  have ord: "query_ordered db user = [(c, pc), (b, pb), (a, pa)]"
    using dist a b c liked ta tb tc ab bc by (rule query_ordered_three)
  show "getProductsLikedByUser db user (Some 2) None
           = Inr [snapshot_to_product (c, pc), snapshot_to_product (b, pb)]"
    by (simp add: getProductsLikedByUser_def query_get_def ord numeral_2_eq_2)
  show "getProductsLikedByUser db user (Some 2) (Some b) = Inr [snapshot_to_product (a, pa)]"
    using b cursor ta tb tc ab bc
    by (simp add: getProductsLikedByUser_def query_get_def ord order_key_def numeral_2_eq_2)
qed


lemma liked_ABC_eq:
  "liked_ABC = [(''A'', coat\<lparr>likes := Some 1, likedBy := Some [''u1''], updatedAt := Some 2\<rparr>),
                (''B'', coat\<lparr>likes := Some 1, likedBy := Some [''u1''], updatedAt := Some 3\<rparr>),
                (''C'', coat\<lparr>likes := Some 1, likedBy := Some [''u1''], updatedAt := Some 4\<rparr>),
                (''D'', coat)]"
  by (simp add: liked_ABC_def four_products_def addLike_def addLike_transaction_def doc_update_def
      arrayUnion_def increment_def likedBy_or_empty_def coat_def)

lemma liked_BC_eq:
  "liked_BC = [(''A'', coat),
               (''B'', coat\<lparr>likes := Some 1, likedBy := Some [''u1''], updatedAt := Some 3\<rparr>),
               (''C'', coat\<lparr>likes := Some 1, likedBy := Some [''u1''], updatedAt := Some 4\<rparr>),
               (''D'', coat)]"
  by (simp add: liked_BC_def four_products_def addLike_def addLike_transaction_def doc_update_def
      arrayUnion_def increment_def likedBy_or_empty_def coat_def)

lemma dom_formatProductResponse_liked_at:
  "dom (formatProductResponse (liked_at i t) (Some ''u1''))
     = {''name'', ''id'', ''likes'', ''createdAt'', ''updatedAt'', ''likeCount'', ''isLikedByUser''}"
  by (auto simp: formatProductResponse_def obj_of_def liked_at_def coat_def Let_def
      split: if_splits)

text \<open>
  Claim C8, as the code has it: when the products that the user likes are exactly \<open>a\<close>,
  \<open>b\<close> and \<open>c\<close>, last written in this order, the query with limit 2 returns \<open>c\<close> and
  \<open>b\<close>, most recent first, and a second call whose \<^verbatim>\<open>startAfter\<close> is the id of the
  last product returned (\<open>b\<close>) returns \<open>a\<close> alone.  Both the repository and the handler
  return the products and nothing else: the caller derives the cursor from the page, and no
  call returns a cursor or says that the listing has ended.
\<close>

theorem liked_products_two_pages:
  assumes "distinct (map fst db)"
    and "map_of db a = Some pa" and "map_of db b = Some pb" and "map_of db c = Some pc"
    and "\<forall>e \<in> set db. (user \<in> set (likedBy_or_empty (snd e))) = (fst e \<in> {a, b, c})"
    and "updatedAt pa = Some ta" and "updatedAt pb = Some tb" and "updatedAt pc = Some tc"
    and "ta < tb" and "tb < tc"
    and "b \<noteq> []" and "pid pb = None" and "user \<noteq> []"
  shows "getProductsLikedByUser db user (Some 2) None
           = Inr [snapshot_to_product (c, pc), snapshot_to_product (b, pb)]
       \<and> pid (snapshot_to_product (b, pb)) = Some b
       \<and> getProductsLikedByUser db user (Some 2) (Some b) = Inr [snapshot_to_product (a, pa)]
       \<and> getLikedProducts db (Some user) (Some 2) None
           = Success (Array [formatProductResponse (snapshot_to_product (c, pc)) (Some user),
                             formatProductResponse (snapshot_to_product (b, pb)) (Some user)])
       \<and> getLikedProducts db (Some user) (Some 2) (Some b)
           = Success (Array [formatProductResponse (snapshot_to_product (a, pa)) (Some user)])"
proof -
  note pages = getProductsLikedByUser_two_pages [OF assms(1-11)]
  show ?thesis
    using assms(12,13)
    by (simp add: pages getLikedProducts_def ProductService_getProductsLikedByUser_def
        snapshot_to_product_def)
qed

theorem liked_products_two_pages_witness:
  "distinct (map fst liked_ABC)
   \<and> map_of liked_ABC ''A'' = Some (liked_at ''A'' 2\<lparr>pid := None\<rparr>)
   \<and> map_of liked_ABC ''B'' = Some (liked_at ''B'' 3\<lparr>pid := None\<rparr>)
   \<and> map_of liked_ABC ''C'' = Some (liked_at ''C'' 4\<lparr>pid := None\<rparr>)
   \<and> getProductsLikedByUser liked_ABC ''u1'' (Some 2) None = Inr [liked_at ''C'' 4, liked_at ''B'' 3]
   \<and> getProductsLikedByUser liked_ABC ''u1'' (Some 2) (Some ''B'') = Inr [liked_at ''A'' 2]
   \<and> getLikedProducts liked_ABC (Some ''u1'') (Some 2) None
       = Success (Array [formatProductResponse (liked_at ''C'' 4) (Some ''u1''),
                         formatProductResponse (liked_at ''B'' 3) (Some ''u1'')])
   \<and> getLikedProducts liked_ABC (Some ''u1'') (Some 2) (Some ''B'')
       = Success (Array [formatProductResponse (liked_at ''A'' 2) (Some ''u1'')])"
proof -
  have h1: "distinct (map fst liked_ABC)" by (simp add: liked_ABC_eq)
  have ha: "map_of liked_ABC ''A'' = Some (liked_at ''A'' 2\<lparr>pid := None\<rparr>)"
    by (simp add: liked_ABC_eq liked_at_def coat_def)
  have hb: "map_of liked_ABC ''B'' = Some (liked_at ''B'' 3\<lparr>pid := None\<rparr>)"
    by (simp add: liked_ABC_eq liked_at_def coat_def)
  have hc: "map_of liked_ABC ''C'' = Some (liked_at ''C'' 4\<lparr>pid := None\<rparr>)"
    by (simp add: liked_ABC_eq liked_at_def coat_def)
  have hl: "\<forall>e \<in> set liked_ABC.
              (''u1'' \<in> set (likedBy_or_empty (snd e))) = (fst e \<in> {''A'', ''B'', ''C''})"
    by (simp add: liked_ABC_eq likedBy_or_empty_def coat_def)
  have ta: "updatedAt (liked_at ''A'' 2\<lparr>pid := None\<rparr>) = Some 2" by (simp add: liked_at_def)
  have tb: "updatedAt (liked_at ''B'' 3\<lparr>pid := None\<rparr>) = Some 3" by (simp add: liked_at_def)
  have tc: "updatedAt (liked_at ''C'' 4\<lparr>pid := None\<rparr>) = Some 4" by (simp add: liked_at_def)
  have ab: "(2::nat) < 3" and bc: "(3::nat) < 4" by simp_all
  have nb: "''B'' \<noteq> []" and nu: "''u1'' \<noteq> []" by simp_all
  have pb: "pid (liked_at ''B'' 3\<lparr>pid := None\<rparr>) = None" by simp
  have snap: "snapshot_to_product (i, liked_at i t\<lparr>pid := None\<rparr>) = liked_at i t" for i t
    by (simp add: snapshot_to_product_def liked_at_def)
  show ?thesis
    using h1 ha hb hc liked_products_two_pages [OF h1 ha hb hc hl ta tb tc ab bc nb pb nu]
    by (simp add: snap)
qed

text \<open>
  The claim as written has the first call return a cursor token and the second call return
  none.  The response to the first call is an array of two projected products, whose keys are
  those of the product, \<^verbatim>\<open>likeCount\<close> and \<^verbatim>\<open>isLikedByUser\<close>; it is the same
  response when \<^verbatim>\<open>u1\<close> likes only \<^verbatim>\<open>B\<close> and \<^verbatim>\<open>C\<close> and nothing is left to
  fetch; and the id of the last product of the last page is accepted as a cursor like any
  other, for an empty page.
\<close>

theorem liked_products_page_has_no_cursor:
  "getLikedProducts liked_ABC (Some ''u1'') (Some 2) None
       = Success (Array [formatProductResponse (liked_at ''C'' 4) (Some ''u1''),
                         formatProductResponse (liked_at ''B'' 3) (Some ''u1'')])
   \<and> dom (formatProductResponse (liked_at ''C'' 4) (Some ''u1''))
       = {''name'', ''id'', ''likes'', ''createdAt'', ''updatedAt'', ''likeCount'', ''isLikedByUser''}
   \<and> dom (formatProductResponse (liked_at ''B'' 3) (Some ''u1''))
       = {''name'', ''id'', ''likes'', ''createdAt'', ''updatedAt'', ''likeCount'', ''isLikedByUser''}
   \<and> getLikedProducts liked_BC (Some ''u1'') (Some 2) None
       = Success (Array [formatProductResponse (liked_at ''C'' 4) (Some ''u1''),
                         formatProductResponse (liked_at ''B'' 3) (Some ''u1'')])
   \<and> getProductsLikedByUser liked_ABC ''u1'' (Some 2) None = Inr [liked_at ''C'' 4, liked_at ''B'' 3]
   \<and> getProductsLikedByUser liked_BC ''u1'' (Some 2) None = Inr [liked_at ''C'' 4, liked_at ''B'' 3]
   \<and> getProductsLikedByUser liked_ABC ''u1'' (Some 2) (Some ''B'') = Inr [liked_at ''A'' 2]
   \<and> getProductsLikedByUser liked_BC ''u1'' (Some 2) (Some ''B'') = Inr []
   \<and> getProductsLikedByUser liked_ABC ''u1'' (Some 2) (Some ''A'') = Inr []"
proof -
  have pages:
    "getProductsLikedByUser liked_ABC ''u1'' (Some 2) None = Inr [liked_at ''C'' 4, liked_at ''B'' 3]"
    "getProductsLikedByUser liked_BC ''u1'' (Some 2) None = Inr [liked_at ''C'' 4, liked_at ''B'' 3]"
    "getProductsLikedByUser liked_ABC ''u1'' (Some 2) (Some ''B'') = Inr [liked_at ''A'' 2]"
    "getProductsLikedByUser liked_BC ''u1'' (Some 2) (Some ''B'') = Inr []"
    "getProductsLikedByUser liked_ABC ''u1'' (Some 2) (Some ''A'') = Inr []"
    by (simp_all add: liked_ABC_eq liked_BC_eq getProductsLikedByUser_def query_get_def
        query_ordered_def query_matches_def order_key_def snapshot_to_product_def
        likedBy_or_empty_def liked_at_def coat_def)
  show ?thesis
    by (simp add: pages dom_formatProductResponse_liked_at getLikedProducts_def
        ProductService_getProductsLikedByUser_def)
qed

section \<open>Likes by distinct users, one after the other\<close>

text \<open>
  Executed one after the other, in any order, likes by \<open>n\<close> distinct users on a fresh
  product leave a counter of \<open>n\<close> and exactly these users in \<^verbatim>\<open>likedBy\<close>.
\<close>

lemma addLike_new_member:
  assumes "map_of db i = Some d" and "u \<notin> set (likedBy_or_empty d)"
  shows "\<exists>d'. map_of (perform i db (t, Like u)) i = Some d'
            \<and> likedBy_or_empty d' = likedBy_or_empty d @ [u]
            \<and> currentLikes d' = currentLikes d + 1"
proof -
  define d' where
    "d' = d\<lparr>likedBy := arrayUnion u (likedBy d), likes := increment 1 (likes d),
             updatedAt := Some t\<rparr>"
  have stored: "map_of (perform i db (t, Like u)) i = Some d'"
    using assms by (simp add: ProductService_likeProduct_def map_of_fst_addLike d'_def)
  have members: "likedBy_or_empty d' = likedBy_or_empty d @ [u]"
    using assms(2)
    by (simp add: d'_def likedBy_or_empty_def arrayUnion_def split: option.splits)
  have counter: "currentLikes d' = currentLikes d + 1"
    by (simp add: d'_def currentLikes_def increment_def split: option.splits)
  show ?thesis using stored members counter by blast
qed

lemma likes_by_distinct_users:
  assumes "map_of db i = Some d"
    and "distinct (likedBy_or_empty d @ us)"
    and "length ts = length us"
  shows "\<exists>d'. map_of (run i db (zip ts (map Like us))) i = Some d'
            \<and> likedBy_or_empty d' = likedBy_or_empty d @ us
            \<and> currentLikes d' = currentLikes d + int (length us)"
  using assms
proof (induction us arbitrary: ts db d)
  case Nil
  then show ?case by (simp add: run_def)
next
  case (Cons u us)
  then obtain t ts' where ts: "ts = t # ts'" and len: "length ts' = length us"
    by (cases ts) auto
  from Cons.prems(2) have fresh: "u \<notin> set (likedBy_or_empty d)" by auto
  from addLike_new_member [OF Cons.prems(1) fresh]
  obtain d1 where d1: "map_of (perform i db (t, Like u)) i = Some d1"
    and m1: "likedBy_or_empty d1 = likedBy_or_empty d @ [u]"
    and c1: "currentLikes d1 = currentLikes d + 1"
    by blast
  from Cons.prems(2) have dist1: "distinct (likedBy_or_empty d1 @ us)"
    by (simp add: m1)
  from Cons.IH [OF d1 dist1 len]
  obtain d' where "map_of (run i (perform i db (t, Like u)) (zip ts' (map Like us))) i = Some d'"
    and "likedBy_or_empty d' = likedBy_or_empty d1 @ us"
    and "currentLikes d' = currentLikes d1 + int (length us)"
    by blast
  then show ?case
    by (simp add: run_def ts m1 c1)
qed

lemma fresh_product_liked_by_distinct_users:
  assumes "map_of db i = Some d" and "currentLikes d = 0" and "likedBy_or_empty d = []"
    and "distinct us" and "length ts = length us"
  shows "\<exists>d'. map_of (run i db (zip ts (map Like us))) i = Some d'
            \<and> set (likedBy_or_empty d') = set us
            \<and> currentLikes d' = int (length us)"
  using likes_by_distinct_users [OF assms(1) _ assms(5)] assms(2,3,4) by auto

end
